theory Spec2Isabelle
  imports Main "HOL-Library.Monad_Syntax"
begin

section \<open>JavaScript values\<close>

text \<open>
  The values that flow through \<^verbatim>\<open>gapi_utils.js\<close>: results handed to callbacks by the
  vendor library, and the \<^verbatim>\<open>Error\<close> objects the module builds. An object is a plain
  data object, given by its own properties in order. A number is given by its string
  conversion, which determines it up to the sign of zero: \<open>JNum ''403''\<close>,
  \<open>JNum ''1.5''\<close>, \<open>JNum ''1e+21''\<close>, \<open>JNum ''NaN''\<close>; the falsy numbers are
  \<^verbatim>\<open>0\<close>, \<^verbatim>\<open>-0\<close> and \<^verbatim>\<open>NaN\<close>, the numbers whose conversion is \<^verbatim>\<open>'0'\<close> or
  \<^verbatim>\<open>'NaN'\<close>. An \<^verbatim>\<open>Error\<close> object carries its
  \<^verbatim>\<open>name\<close>, its \<^verbatim>\<open>message\<close> and the \<^verbatim>\<open>gapi_error\<close> property the module attaches
  (\<open>Undefined\<close> while it has not been attached).
\<close>

datatype jsval =
    Undefined
  | Null
  | JBool bool
  | JNum string
  | JStr string
  | JObj "(string \<times> jsval) list"
  | JError string string jsval

text \<open>ToBoolean, as applied by \<^verbatim>\<open>!x\<close>, \<^verbatim>\<open>if (x)\<close> and \<^verbatim>\<open>x && y\<close>.\<close>

fun truthy :: "jsval \<Rightarrow> bool" where
  "truthy Undefined = False"
| "truthy Null = False"
| "truthy (JBool b) = b"
| "truthy (JNum s) = (s \<noteq> ''0'' \<and> s \<noteq> ''NaN'')"
| "truthy (JStr s) = (s \<noteq> [])"
| "truthy (JObj ps) = True"
| "truthy (JError n m g) = True"

text \<open>
  The property read \<^verbatim>\<open>v[k]\<close> on a value other than \<^verbatim>\<open>undefined\<close> and \<^verbatim>\<open>null\<close>:
  an own property of an object, and \<^verbatim>\<open>undefined\<close> for a missing property and for the
  properties of a primitive that the module reads (\<^verbatim>\<open>error\<close>, \<^verbatim>\<open>message\<close>,
  \<^verbatim>\<open>client\<close>, \<^verbatim>\<open>access_token\<close>). On \<^verbatim>\<open>undefined\<close> and \<^verbatim>\<open>null\<close> the read
  throws a TypeError: \<open>readable\<close> is the guard, every read of \<open>wrap_result\<close> is made on
  a truthy value (\<open>truthy_readable\<close>), and \<open>download\<close> tests it explicitly.
\<close>

definition readable :: "jsval \<Rightarrow> bool" where
  "readable v = (v \<noteq> Undefined \<and> v \<noteq> Null)"

fun get :: "jsval \<Rightarrow> string \<Rightarrow> jsval" where
  "get (JObj ps) k = (case map_of ps k of Some v \<Rightarrow> v | None \<Rightarrow> Undefined)"
| "get (JError n m g) k =
     (if k = ''name'' then JStr n
      else if k = ''message'' then JStr m
      else if k = ''gapi_error'' then g
      else Undefined)"
| "get v k = Undefined"

text \<open>
  ToString, as applied by \<^verbatim>\<open>'Bearer ' + token\<close> and by \<^verbatim>\<open>new Error(message)\<close>.
  A number has the conversion it is given by, a plain object the default rendering of
  \<^verbatim>\<open>Object.prototype\<close>, an \<^verbatim>\<open>Error\<close> that of \<^verbatim>\<open>Error.prototype\<close>.
\<close>

fun to_string :: "jsval \<Rightarrow> string" where
  "to_string Undefined = ''undefined''"
| "to_string Null = ''null''"
| "to_string (JBool b) = (if b then ''true'' else ''false'')"
| "to_string (JNum s) = s"
| "to_string (JStr s) = s"
| "to_string (JObj ps) = ''[object Object]''"
| "to_string (JError n m g) =
     (if n = [] then m else if m = [] then n else n @ '': '' @ m)"

text \<open>
  \<^verbatim>\<open>new Error(message)\<close>: the name is \<^verbatim>\<open>'Error'\<close>; the message is the string
  conversion of the argument, and the empty string when the argument is
  \<^verbatim>\<open>undefined\<close>. The two assignments \<^verbatim>\<open>error.name = ...\<close> and
  \<^verbatim>\<open>error.gapi_error = ...\<close> of the module follow.
\<close>

definition new_Error :: "jsval \<Rightarrow> jsval" where
  "new_Error message =
     JError ''Error'' (if message = Undefined then [] else to_string message) Undefined"

fun set_name :: "jsval \<Rightarrow> string \<Rightarrow> jsval" where
  "set_name (JError n m g) n' = JError n' m g"
| "set_name v n' = v"

fun set_gapi_error :: "jsval \<Rightarrow> jsval \<Rightarrow> jsval" where
  "set_gapi_error (JError n m g) g' = JError n m g'"
| "set_gapi_error v g' = v"

section \<open>Promises\<close>

text \<open>
  A promise is given by the state it ends in: fulfilled with a value, rejected with a
  reason, or pending for ever. \<open>resolve_with p q\<close> is a call \<^verbatim>\<open>resolve(q)\<close> of the
  resolving function of \<open>p\<close> with the promise \<open>q\<close>: a pending \<open>p\<close> takes the state
  of \<open>q\<close>, a settled one is left as it is. \<open>reject_with p e\<close> is \<^verbatim>\<open>reject(e)\<close>.
\<close>

datatype promise = Pending | Fulfilled jsval | Rejected jsval

definition Promise_resolve :: "jsval \<Rightarrow> promise" where
  "Promise_resolve v = Fulfilled v"

definition Promise_reject :: "jsval \<Rightarrow> promise" where
  "Promise_reject e = Rejected e"

definition resolve_with :: "promise \<Rightarrow> promise \<Rightarrow> promise" where
  "resolve_with p q = (if p = Pending then q else p)"

definition reject_with :: "promise \<Rightarrow> jsval \<Rightarrow> promise" where
  "reject_with p e = (if p = Pending then Rejected e else p)"

fun is_rejected :: "promise \<Rightarrow> bool" where
  "is_rejected (Rejected e) = True"
| "is_rejected p = False"

section \<open>Result normalization: \<^verbatim>\<open>wrap_result\<close> and \<^verbatim>\<open>execute\<close>\<close>

definition wrap_result :: "jsval \<Rightarrow> promise" where
  "wrap_result result =
     (if \<not> truthy result then
        (let error = new_Error (JStr ''Unknown error during Google API call'');
             error = set_name error ''GapiError''
         in Promise_reject error)
      else if truthy (get result ''error'') then
        (let error = new_Error (get (get result ''error'') ''message'');
             error = set_gapi_error error (get result ''error'')
         in Promise_reject error)
      else Promise_resolve result)"

text \<open>
  A vendor request is given by what its \<^verbatim>\<open>execute\<close> method does with the callback:
  the results it passes to it, call after call (none when it never calls back).
  \<^verbatim>\<open>execute\<close> creates a pending promise, and every call of the callback runs
  \<^verbatim>\<open>resolve(wrap_result(result))\<close> on it.
\<close>

type_synonym request = "jsval list"

definition execute :: "request \<Rightarrow> promise" where
  "execute request =
     foldl (\<lambda>p result. resolve_with p (wrap_result result)) Pending request"

section \<open>The module's collaborators\<close>

text \<open>
  The module talks to jQuery, to the notebook's \<^verbatim>\<open>utils\<close> and \<^verbatim>\<open>dialog\<close>
  modules and to the vendor library \<^verbatim>\<open>gapi\<close>. None of them is part of the module;
  each is given by what it answers, and every call the module makes to one of them is
  logged as an event, in order. The vendor library is reached through the global
  identifier \<^verbatim>\<open>gapi\<close>, which is unbound until the library has loaded: a call
  \<^verbatim>\<open>gapi.f(...)\<close> then throws a ReferenceError before anything is called.
  \<^verbatim>\<open>load_gapi_2\<close> and \<^verbatim>\<open>download\<close> can run in that state and have that outcome
  below. \<^verbatim>\<open>authorize\<close> is not exported and runs only as the last step of the
  startup chain, after \<^verbatim>\<open>load_gapi_2\<close> has made its calls into the library.
\<close>

record auth_params =
  client_id :: string
  scope :: "string list"
  immediate :: bool

record dialog_options =
  title :: string
  body :: string
  buttons :: "string list"

record ajax_settings =
  headers :: "(string \<times> string) list"

record http_request =
  http_method :: string
  http_url :: string
  http_headers :: "(string \<times> string) list"

datatype http_response = Contents jsval | Failure string

datatype event =
    GetScript string
  | GapiLoad string
  | GapiClientLoad string string
  | GapiAuthAuthorize auth_params
  | DialogModal dialog_options
  | HttpRequest http_request

text \<open>
  What the user does with the modal dialog: a click on \<^verbatim>\<open>ok\<close>, a click on
  \<^verbatim>\<open>cancel\<close> (the handler \<^verbatim>\<open>reject\<close> receives the click event), or neither.
\<close>

datatype user_action = ClickOk | ClickCancel jsval | NoClick

text \<open>How a call of a function passed as a handler completes.\<close>

datatype completion = Returns jsval | Throws jsval

text \<open>
  \<^item> \<open>jq_getScript url\<close>: the state that \<^verbatim>\<open>Promise.resolve($.getScript(url))\<close> ends in;
  \<^item> \<open>utils_wrap_ajax_error e\<close>: how the call \<^verbatim>\<open>utils.wrap_ajax_error(e)\<close> completes;
  \<^item> \<open>window_gapi k\<close>: the value of the global \<^verbatim>\<open>window.gapi\<close> at the \<open>k\<close>-th
    evaluation of the polled condition (counted from 0);
  \<^item> \<open>gapi_bound\<close>: whether the identifier \<^verbatim>\<open>gapi\<close> is bound to the loaded library
    when \<^verbatim>\<open>load_gapi_2\<close>, or \<^verbatim>\<open>download\<close>, runs;
  \<^item> \<open>gapi_load names\<close>: whether \<^verbatim>\<open>gapi.load(names, callback)\<close> calls back;
  \<^item> \<open>gapi_client_load name version\<close>: the argument with which
    \<^verbatim>\<open>gapi.client.load(name, version, callback)\<close> calls back, if it does;
  \<^item> \<open>gapi_auth_authorize params\<close>: the result that
    \<^verbatim>\<open>gapi.auth.authorize(params, callback)\<close> passes to the callback, if it calls back;
  \<^item> \<open>gapi_auth_getToken\<close>: what \<^verbatim>\<open>gapi.auth.getToken()\<close> returns;
  \<^item> \<open>dialog_modal options\<close>: what the user does with the dialog that
    \<^verbatim>\<open>dialog.modal(options)\<close> shows;
  \<^item> \<open>http_server request\<close>: the answer to an HTTP request, if one comes.
\<close>

record env =
  jq_getScript :: "string \<Rightarrow> promise"
  utils_wrap_ajax_error :: "jsval \<Rightarrow> completion"
  window_gapi :: "nat \<Rightarrow> jsval"
  gapi_bound :: bool
  gapi_load :: "string \<Rightarrow> bool"
  gapi_client_load :: "string \<Rightarrow> string \<Rightarrow> jsval option"
  gapi_auth_authorize :: "auth_params \<Rightarrow> jsval option"
  gapi_auth_getToken :: jsval
  dialog_modal :: "dialog_options \<Rightarrow> user_action"
  http_server :: "http_request \<Rightarrow> http_response option"

text \<open>
  \<^verbatim>\<open>p.then(onFulfilled, onRejected)\<close>, on a computation that has logged the events
  \<open>t\<close> and returned the promise \<open>p\<close>: the handler that matches the state of \<open>p\<close>
  runs, after the events of \<open>t\<close>, and the new promise follows the promise the handler
  returns; no handler runs while \<open>p\<close> is pending. \<^verbatim>\<open>p.then(f)\<close> passes a rejection
  on, \<^verbatim>\<open>p.catch(g)\<close> passes a fulfilment on.
\<close>

fun then2 :: "event list \<times> promise \<Rightarrow> (jsval \<Rightarrow> event list \<times> promise) \<Rightarrow>
    (jsval \<Rightarrow> event list \<times> promise) \<Rightarrow> event list \<times> promise" where
  "then2 (t, Pending) onFulfilled onRejected = (t, Pending)"
| "then2 (t, Fulfilled v) onFulfilled onRejected =
     (let (t', q) = onFulfilled v in (t @ t', q))"
| "then2 (t, Rejected e) onFulfilled onRejected =
     (let (t', q) = onRejected e in (t @ t', q))"

definition then1 :: "event list \<times> promise \<Rightarrow> (jsval \<Rightarrow> event list \<times> promise) \<Rightarrow>
    event list \<times> promise" where
  "then1 r onFulfilled = then2 r onFulfilled (\<lambda>e. ([], Rejected e))"

definition catch :: "event list \<times> promise \<Rightarrow> (jsval \<Rightarrow> event list \<times> promise) \<Rightarrow>
    event list \<times> promise" where
  "catch r onRejected = then2 r (\<lambda>v. ([], Fulfilled v)) onRejected"

definition gapi_is_not_defined :: jsval where
  "gapi_is_not_defined = JError ''ReferenceError'' ''gapi is not defined'' Undefined"

fun handler_result :: "completion \<Rightarrow> event list \<times> promise" where
  "handler_result (Returns v) = ([], Fulfilled v)"
| "handler_result (Throws e) = ([], Rejected e)"

section \<open>Authenticated download\<close>

text \<open>
  Modelled from the spec: \<^verbatim>\<open>utils.promising_ajax\<close> belongs to the notebook's
  \<^verbatim>\<open>base/js/utils\<close>, which is not among the sources. The spec has \<^verbatim>\<open>download\<close>
  ``issue an HTTP GET with a bearer token attached, returning a value on success or
  failing with a network/auth error'': one GET request for the url with the headers of
  the settings, and a promise fulfilled with the contents when the request succeeds,
  rejected with an \<^verbatim>\<open>Error\<close> when it fails.
\<close>

definition promising_ajax :: "(http_request \<Rightarrow> http_response option) \<Rightarrow> string \<Rightarrow>
    ajax_settings \<Rightarrow> event list \<times> promise" where
  "promising_ajax server url settings =
     (let request = \<lparr>http_method = ''GET'', http_url = url, http_headers = headers settings\<rparr>
      in ([HttpRequest request],
          case server request of
            None \<Rightarrow> Pending
          | Some (Contents data) \<Rightarrow> Fulfilled data
          | Some (Failure reason) \<Rightarrow> Rejected (new_Error (JStr reason))))"

text \<open>
  \<^verbatim>\<open>download\<close> reads \<^verbatim>\<open>access_token\<close> off \<^verbatim>\<open>gapi.auth.getToken()\<close>. The call
  throws a ReferenceError when \<^verbatim>\<open>gapi\<close> is unbound, and the read throws a TypeError
  when there is no token object; either (\<open>Inl\<close>) ends \<^verbatim>\<open>download\<close> before any request
  is made and before any promise exists.
\<close>

definition download :: "env \<Rightarrow> string \<Rightarrow> jsval + event list \<times> promise" where
  "download env url =
     (if \<not> gapi_bound env then Inl gapi_is_not_defined
      else if \<not> readable (gapi_auth_getToken env) then
        Inl (JError ''TypeError'' ''cannot read property access_token'' Undefined)
      else
        (let token = get (gapi_auth_getToken env) ''access_token'';
             settings = \<lparr>headers = [(''Authorization'', ''Bearer '' @ to_string token)]\<rparr>
         in Inr (promising_ajax (http_server env) url settings)))"

section \<open>Polling\<close>

text \<open>
  \<open>condition k\<close> is what the \<open>k\<close>-th call of \<^verbatim>\<open>condition()\<close> returns, counted from 0.
  \<open>polling_function condition interval k\<close> is the run of \<^verbatim>\<open>polling_function\<close> from
  that call on: the steps it takes, in order, when the run ends, and \<open>None\<close> when it
  goes on rescheduling itself for ever. \<open>poll\<close> creates a pending promise and makes
  the first call at once; each \<open>Resolve\<close> step is a call of \<^verbatim>\<open>resolve()\<close> on it.
  The condition is, as the comment of \<^verbatim>\<open>poll\<close> has it, a ``function called with no
  args, that returns true when the condition is fullfilled'': each call returns a boolean.
\<close>

datatype poll_step = Evaluated bool | SetTimeout nat | Resolve

partial_function (option) polling_function ::
    "(nat \<Rightarrow> bool) \<Rightarrow> nat \<Rightarrow> nat \<Rightarrow> poll_step list option" where
  "polling_function condition interval k =
     (if condition k then Some [Evaluated True, Resolve]
      else do {
        rest \<leftarrow> polling_function condition interval (Suc k);
        Some (Evaluated False # SetTimeout interval # rest)
      })"

declare polling_function.simps [code]

fun poll_step_on :: "promise \<Rightarrow> poll_step \<Rightarrow> promise" where
  "poll_step_on p Resolve = resolve_with p (Fulfilled Undefined)"
| "poll_step_on p s = p"

definition poll :: "(nat \<Rightarrow> bool) \<Rightarrow> nat \<Rightarrow> promise" where
  "poll condition interval =
     (case polling_function condition interval 0 of
        None \<Rightarrow> Pending
      | Some steps \<Rightarrow> foldl poll_step_on Pending steps)"

section \<open>Loading the client library\<close>

definition js_and :: "jsval \<Rightarrow> jsval \<Rightarrow> jsval" where
  "js_and a b = (if truthy a then b else a)"

definition gapi_available :: "env \<Rightarrow> nat \<Rightarrow> bool" where
  "gapi_available env k =
     truthy (js_and (window_gapi env k) (get (window_gapi env k) ''client''))"

definition load_gapi_1 :: "env \<Rightarrow> event list \<times> promise" where
  "load_gapi_1 env =
     then2 ([GetScript ''https://apis.google.com/js/client.js''],
            jq_getScript env ''https://apis.google.com/js/client.js'')
       (\<lambda>_. ([], poll (gapi_available env) 100))
       (\<lambda>e. handler_result (utils_wrap_ajax_error env e))"

text \<open>
  The executor of \<^verbatim>\<open>load_gapi_2\<close> starts with the call \<^verbatim>\<open>gapi.load(...)\<close>; where
  \<^verbatim>\<open>gapi\<close> is unbound it throws, and the promise is rejected with what it throws.
\<close>

definition load_gapi_2 :: "env \<Rightarrow> jsval \<Rightarrow> event list \<times> promise" where
  "load_gapi_2 env d =
     (if \<not> gapi_bound env then ([], reject_with Pending gapi_is_not_defined)
      else if gapi_load env ''auth:client,drive-realtime,drive-share'' then
        ([GapiLoad ''auth:client,drive-realtime,drive-share'', GapiClientLoad ''drive'' ''v2''],
         case gapi_client_load env ''drive'' ''v2'' of
           None \<Rightarrow> Pending
         | Some v \<Rightarrow> resolve_with Pending (Fulfilled v))
      else ([GapiLoad ''auth:client,drive-realtime,drive-share''], Pending))"

section \<open>Authorization\<close>

definition FILES_OAUTH_SCOPE :: string where
  "FILES_OAUTH_SCOPE = ''https://www.googleapis.com/auth/drive.file''"

definition METADATA_OAUTH_SCOPE :: string where
  "METADATA_OAUTH_SCOPE = ''https://www.googleapis.com/auth/drive.readonly.metadata''"

text \<open>
  \<^verbatim>\<open>authorize_internal\<close> is the inner function of \<^verbatim>\<open>authorize\<close>; the variable
  \<^verbatim>\<open>opt_withPopup\<close> of its closure is its argument here.
\<close>

definition authorize_internal :: "env \<Rightarrow> jsval \<Rightarrow> event list \<times> promise" where
  "authorize_internal env opt_withPopup =
     (let params = \<lparr>
            client_id = ''911569945122-tlvi6ucbj137ifhitpqpdikf3qo1mh9d.apps.googleusercontent.com'',
            scope = [FILES_OAUTH_SCOPE, METADATA_OAUTH_SCOPE],
            immediate = (\<not> truthy opt_withPopup)\<rparr>
      in ([GapiAuthAuthorize params],
          case gapi_auth_authorize env params of
            None \<Rightarrow> Pending
          | Some result \<Rightarrow> resolve_with Pending (wrap_result result)))"

definition options :: dialog_options where
  "options = \<lparr>
     title = ''Authentication needed'',
     body = ''Accessing Google Drive requires authentication.  Click ok to proceed.'',
     buttons = [''ok'', ''cancel'']\<rparr>"

function authorize :: "env \<Rightarrow> jsval \<Rightarrow> event list \<times> promise" where
  "authorize env opt_withPopup =
     (if truthy opt_withPopup then
        (case dialog_modal env options of
           ClickOk \<Rightarrow>
             (let (t, p) = authorize_internal env opt_withPopup
              in (DialogModal options # t, resolve_with Pending p))
         | ClickCancel ev \<Rightarrow> ([DialogModal options], reject_with Pending ev)
         | NoClick \<Rightarrow> ([DialogModal options], Pending))
      else
        catch (authorize_internal env opt_withPopup) (\<lambda>_. authorize env (JBool True)))"
  by pat_completeness auto
termination
  by (relation "measure (\<lambda>(env, opt_withPopup). if truthy opt_withPopup then 0 else 1)") auto

declare authorize.simps [simp del]

section \<open>The startup chain\<close>

definition gapi_ready :: "env \<Rightarrow> event list \<times> promise" where
  "gapi_ready env = then1 (then1 (load_gapi_1 env) (load_gapi_2 env)) (authorize env)"

section \<open>A sample environment\<close>

text \<open>
  A first visit: the script loads, the library appears at the third evaluation of the
  polled condition, the silent authorization fails with \<^verbatim>\<open>immediate_failed\<close>, the
  user clicks \<^verbatim>\<open>ok\<close> and the interactive authorization succeeds. The properties below
  are evaluated on it and on variations of it.
\<close>

definition scenario :: env where
  "scenario = \<lparr>
     jq_getScript = (\<lambda>url. Fulfilled (JStr ''/* client.js */'')),
     utils_wrap_ajax_error = (\<lambda>e. Returns (JError ''XHRError'' ''Unknown error'' Undefined)),
     window_gapi = (\<lambda>k. if k < 2 then Undefined else JObj [(''client'', JObj [])]),
     gapi_bound = True,
     gapi_load = (\<lambda>names. True),
     gapi_client_load = (\<lambda>name version. Some Undefined),
     gapi_auth_authorize = (\<lambda>params.
       if immediate params then Some (JObj [(''error'', JStr ''immediate_failed'')])
       else Some (JObj [(''access_token'', JStr ''ya29'')])),
     gapi_auth_getToken = JObj [(''access_token'', JStr ''ya29'')],
     dialog_modal = (\<lambda>options. ClickOk),
     http_server = (\<lambda>request. Some (Contents (JStr ''notebook'')))\<rparr>"

section \<open>Properties of result normalization\<close>

lemma truthy_readable: "truthy v \<Longrightarrow> readable v"
  by (cases v) (simp_all add: readable_def)

lemma wrap_result_settled: "wrap_result result \<noteq> Pending"
  by (simp add: wrap_result_def Promise_reject_def Promise_resolve_def Let_def)

lemma resolve_with_settled: "p \<noteq> Pending \<Longrightarrow> resolve_with p q = p"
  by (simp add: resolve_with_def)

lemma foldl_resolve_settled:
  "p \<noteq> Pending \<Longrightarrow> foldl (\<lambda>p result. resolve_with p (wrap_result result)) p rs = p"
  by (induction rs arbitrary: p) (simp_all add: resolve_with_settled)

lemma execute_first: "execute (result # later) = wrap_result result"
proof -
  have "execute (result # later) =
      foldl (\<lambda>p result. resolve_with p (wrap_result result)) (wrap_result result) later"
    by (simp add: execute_def resolve_with_def)
  also have "\<dots> = wrap_result result"
    by (rule foldl_resolve_settled) (rule wrap_result_settled)
  finally show ?thesis .
qed

lemma execute_never_called_back: "execute [] = Pending"
  by (simp add: execute_def)

text \<open>
  C1. For every result passed to the callback of \<^verbatim>\<open>execute(request)\<close>, the returned
  promise is rejected if and only if the result is falsy or has a truthy \<^verbatim>\<open>error\<close>
  field, and for every other result it is fulfilled with that result unchanged. (The
  first call of the callback settles the promise, whatever calls come later; a request
  that never calls back leaves it pending, \<open>execute_never_called_back\<close>.)
\<close>

theorem execute_rejects_iff:
  "(is_rejected (execute (result # later)) \<longleftrightarrow>
      \<not> truthy result \<or> truthy (get result ''error'')) \<and>
   (\<not> (\<not> truthy result \<or> truthy (get result ''error'')) \<longrightarrow>
      execute (result # later) = Fulfilled result)"
  by (simp add: execute_first wrap_result_def Promise_reject_def Promise_resolve_def Let_def)

theorem execute_rejects_iff_witness:
  "\<not> (\<not> truthy (JObj [(''id'', JStr ''f1'')]) \<or>
        truthy (get (JObj [(''id'', JStr ''f1'')]) ''error'')) \<and>
   execute [JObj [(''id'', JStr ''f1'')]] = Fulfilled (JObj [(''id'', JStr ''f1'')])"
  using execute_rejects_iff [of "JObj [(''id'', JStr ''f1'')]" "[]"] by simp

text \<open>
  C5, as stated, fails. The result \<^verbatim>\<open>{error: 'immediate_failed'}\<close> has a truthy
  \<^verbatim>\<open>error\<close> field; \<^verbatim>\<open>result.error.message\<close> is \<^verbatim>\<open>undefined\<close>, and the message of
  the \<^verbatim>\<open>Error\<close> that \<^verbatim>\<open>new Error(undefined)\<close> builds is the empty string.
\<close>

theorem wrap_result_message_counterexample:
  "wrap_result (JObj [(''error'', JStr ''immediate_failed'')]) =
     Rejected (JError ''Error'' [] (JStr ''immediate_failed'')) \<and>
   get (JError ''Error'' [] (JStr ''immediate_failed'')) ''message'' = JStr [] \<and>
   get (get (JObj [(''error'', JStr ''immediate_failed'')]) ''error'') ''message'' = Undefined \<and>
   get (JError ''Error'' [] (JStr ''immediate_failed'')) ''message'' \<noteq>
     get (get (JObj [(''error'', JStr ''immediate_failed'')]) ''error'') ''message''"
  by (simp add: wrap_result_def new_Error_def Promise_reject_def)

text \<open>
  C5, amended. For every falsy result the rejection is an \<^verbatim>\<open>Error\<close> named
  \<^verbatim>\<open>GapiError\<close> with the message \<^verbatim>\<open>Unknown error during Google API call\<close>. For every
  truthy result with a truthy \<^verbatim>\<open>error\<close> field the rejection is an \<^verbatim>\<open>Error\<close> whose
  \<^verbatim>\<open>gapi_error\<close> field is \<^verbatim>\<open>result.error\<close> and whose message is
  \<^verbatim>\<open>result.error.message\<close> when that is a string, and the empty string when it is
  \<^verbatim>\<open>undefined\<close>.
\<close>

theorem wrap_result_rejections:
  "(\<not> truthy result \<longrightarrow>
      wrap_result result =
        Rejected (JError ''GapiError'' ''Unknown error during Google API call'' Undefined)) \<and>
   (truthy result \<and> truthy (get result ''error'') \<longrightarrow>
      (\<exists>m. wrap_result result = Rejected (JError ''Error'' m (get result ''error'')) \<and>
           (get (get result ''error'') ''message'' = Undefined \<longrightarrow> m = []) \<and>
           (\<forall>s. get (get result ''error'') ''message'' = JStr s \<longrightarrow> m = s)))"
  by (simp add: wrap_result_def new_Error_def Promise_reject_def)

theorem wrap_result_rejections_witness:
  "\<not> truthy Null \<and>
   wrap_result Null =
     Rejected (JError ''GapiError'' ''Unknown error during Google API call'' Undefined) \<and>
   truthy (JObj [(''error'', JObj [(''code'', JNum ''403''), (''message'', JStr ''Forbidden'')])]) \<and>
   truthy (get (JObj [(''error'', JObj [(''code'', JNum ''403''), (''message'', JStr ''Forbidden'')])])
     ''error'') \<and>
   get (get (JObj [(''error'', JObj [(''code'', JNum ''403''), (''message'', JStr ''Forbidden'')])])
     ''error'') ''message'' = JStr ''Forbidden'' \<and>
   wrap_result (JObj [(''error'', JObj [(''code'', JNum ''403''), (''message'', JStr ''Forbidden'')])]) =
     Rejected (JError ''Error'' ''Forbidden''
       (JObj [(''code'', JNum ''403''), (''message'', JStr ''Forbidden'')]))"
  using wrap_result_rejections [of Null]
    wrap_result_rejections
      [of "JObj [(''error'', JObj [(''code'', JNum ''403''), (''message'', JStr ''Forbidden'')])]"]
  by simp

section \<open>Properties of the download\<close>

text \<open>
  C3, as stated, fails. With the library loaded and no current token,
  \<^verbatim>\<open>gapi.auth.getToken()\<close> returns \<^verbatim>\<open>null\<close> and the read of \<^verbatim>\<open>access_token\<close>
  throws: \<^verbatim>\<open>download\<close> issues no request and returns no promise.
\<close>

theorem download_without_token_counterexample:
  "download (scenario\<lparr>gapi_auth_getToken := Null\<rparr>)
     ''https://www.googleapis.com/drive/v2/files/f1?alt=media'' =
   Inl (JError ''TypeError'' ''cannot read property access_token'' Undefined)"
  by (simp add: download_def scenario_def readable_def)

text \<open>
  C3, amended. For every url, when \<^verbatim>\<open>gapi.auth.getToken()\<close> returns a token object
  (the library is loaded and there is a current auth token), \<^verbatim>\<open>download(url)\<close> issues
  a single HTTP GET request to that url, with the header \<^verbatim>\<open>Authorization\<close> set to
  \<^verbatim>\<open>'Bearer '\<close> followed by the \<^verbatim>\<open>access_token\<close> of the token, and returns a promise
  that is fulfilled with the fetched contents when the request succeeds and rejected with
  an \<^verbatim>\<open>Error\<close> when it fails.
\<close>

theorem download_request:
  "gapi_bound env \<Longrightarrow> readable (gapi_auth_getToken env) \<Longrightarrow>
   download env url =
     Inr ([HttpRequest \<lparr>http_method = ''GET'', http_url = url,
             http_headers = [(''Authorization'',
               ''Bearer '' @ to_string (get (gapi_auth_getToken env) ''access_token''))]\<rparr>],
          case http_server env \<lparr>http_method = ''GET'', http_url = url,
             http_headers = [(''Authorization'',
               ''Bearer '' @ to_string (get (gapi_auth_getToken env) ''access_token''))]\<rparr> of
            None \<Rightarrow> Pending
          | Some (Contents data) \<Rightarrow> Fulfilled data
          | Some (Failure reason) \<Rightarrow> Rejected (JError ''Error'' reason Undefined))"
  by (simp add: download_def promising_ajax_def new_Error_def Let_def
      split: option.splits http_response.splits)

theorem download_request_witness:
  "gapi_bound scenario \<and> readable (gapi_auth_getToken scenario) \<and>
   download scenario ''https://www.googleapis.com/drive/v2/files/f1?alt=media'' =
     Inr ([HttpRequest \<lparr>http_method = ''GET'',
             http_url = ''https://www.googleapis.com/drive/v2/files/f1?alt=media'',
             http_headers = [(''Authorization'', ''Bearer ya29'')]\<rparr>],
          Fulfilled (JStr ''notebook''))"
  using download_request [of scenario "''https://www.googleapis.com/drive/v2/files/f1?alt=media''"]
  by (simp add: scenario_def readable_def)

lemma download_before_library:
  "\<not> gapi_bound env \<Longrightarrow> download env url = Inl gapi_is_not_defined"
  by (simp add: download_def)

section \<open>Properties of polling\<close>

lemma polling_function_found:
  "condition (k + n) \<Longrightarrow> (\<forall>j<n. \<not> condition (k + j)) \<Longrightarrow>
   polling_function condition interval k =
     Some (concat (replicate n [Evaluated False, SetTimeout interval]) @ [Evaluated True, Resolve])"
proof (induction n arbitrary: k)
  case 0
  then show ?case by (subst polling_function.simps) simp
next
  case (Suc n)
  have nk: "\<not> condition k" using Suc.prems(2) by force
  have "condition (Suc k + n)" using Suc.prems(1) by simp
  moreover have "\<forall>j<n. \<not> condition (Suc k + j)"
    using Suc.prems(2) by (metis Suc_less_eq add_Suc_shift)
  ultimately have "polling_function condition interval (Suc k) =
     Some (concat (replicate n [Evaluated False, SetTimeout interval]) @ [Evaluated True, Resolve])"
    by (rule Suc.IH)
  then show ?case using nk by (subst polling_function.simps) simp
qed

lemma polling_function_Some_true:
  "polling_function condition interval k = Some steps \<Longrightarrow> \<exists>n. condition (k + n)"
proof (induction arbitrary: steps rule: polling_function.raw_induct[rotated 1, consumes 1])
  case (1 polling_function' condition interval k steps)
  show ?case
  proof (cases "condition k")
    case True
    then have "condition (k + 0)" by simp
    then show ?thesis by blast
  next
    case False
    with 1(2) obtain rest where "polling_function' condition interval (Suc k) = Some rest"
      by (auto split: bind_splits)
    then obtain n where "condition (Suc k + n)" using 1(1) by blast
    then have "condition (k + Suc n)" by simp
    then show ?thesis by blast
  qed
qed

lemma polling_function_Some_iff:
  "polling_function condition interval 0 = Some steps \<longleftrightarrow>
     (\<exists>n. condition n \<and> (\<forall>j<n. \<not> condition j) \<and>
        steps = concat (replicate n [Evaluated False, SetTimeout interval]) @
                  [Evaluated True, Resolve])"
proof
  assume run: "polling_function condition interval 0 = Some steps"
  then obtain m where "condition m"
    using polling_function_Some_true [of condition interval 0 steps] by auto
  define n where "n = (LEAST m. condition m)"
  have cn: "condition n" unfolding n_def using \<open>condition m\<close> by (rule LeastI)
  have before: "\<forall>j<n. \<not> condition j" unfolding n_def using not_less_Least by blast
  have "polling_function condition interval 0 =
      Some (concat (replicate n [Evaluated False, SetTimeout interval]) @ [Evaluated True, Resolve])"
    using polling_function_found [of condition 0 n interval] cn before by simp
  with run cn before show "\<exists>n. condition n \<and> (\<forall>j<n. \<not> condition j) \<and>
        steps = concat (replicate n [Evaluated False, SetTimeout interval]) @
                  [Evaluated True, Resolve]" by auto
next
  assume "\<exists>n. condition n \<and> (\<forall>j<n. \<not> condition j) \<and>
        steps = concat (replicate n [Evaluated False, SetTimeout interval]) @
                  [Evaluated True, Resolve]"
  then show "polling_function condition interval 0 = Some steps"
    using polling_function_found [of condition 0 _ interval] by auto
qed

lemma polling_function_None_iff:
  "polling_function condition interval 0 = None \<longleftrightarrow> (\<forall>n. \<not> condition n)"
proof
  assume none: "polling_function condition interval 0 = None"
  show "\<forall>n. \<not> condition n"
  proof (rule ccontr)
    assume "\<not> (\<forall>n. \<not> condition n)"
    then obtain m where "condition m" by blast
    define n where "n = (LEAST m. condition m)"
    have cn: "condition n" unfolding n_def using \<open>condition m\<close> by (rule LeastI)
    have before: "\<forall>j<n. \<not> condition j" unfolding n_def using not_less_Least by blast
    show False
      using polling_function_found [of condition 0 n interval] cn before none by simp
  qed
next
  assume never: "\<forall>n. \<not> condition n"
  show "polling_function condition interval 0 = None"
  proof (cases "polling_function condition interval 0")
    case None
    then show ?thesis .
  next
    case (Some steps)
    then show ?thesis
      using polling_function_Some_true [of condition interval 0 steps] never by auto
  qed
qed

lemma foldl_poll_step_on_waiting:
  "foldl poll_step_on p (concat (replicate n [Evaluated False, SetTimeout interval])) = p"
  by (induction n) simp_all

lemma foldl_poll_step_on_run:
  "foldl poll_step_on Pending
     (concat (replicate n [Evaluated False, SetTimeout interval]) @ [Evaluated True, Resolve]) =
   Fulfilled Undefined"
  by (simp add: foldl_poll_step_on_waiting resolve_with_def)

lemma poll_cases:
  "poll condition interval = (if \<exists>n. condition n then Fulfilled Undefined else Pending)"
proof (cases "polling_function condition interval 0")
  case None
  then show ?thesis using polling_function_None_iff [of condition interval]
    by (simp add: poll_def)
next
  case (Some steps)
  then obtain n where n: "condition n"
    "steps = concat (replicate n [Evaluated False, SetTimeout interval]) @ [Evaluated True, Resolve]"
    using polling_function_Some_iff [of condition interval steps] by auto
  have "poll condition interval = Fulfilled Undefined"
    using Some n(2) by (simp add: poll_def foldl_poll_step_on_run del: foldl_append)
  with n(1) show ?thesis by auto
qed

text \<open>
  C8. \<^verbatim>\<open>poll(condition, interval)\<close> evaluates the condition at once, before any
  delay: the first step of every run is an evaluation. The run resolves right after the
  first evaluation that returns true and after nothing else: up to there every evaluation
  returned false and was followed by a \<^verbatim>\<open>setTimeout\<close> of the interval. So the promise is
  fulfilled exactly when some evaluation returns true, it stays pending (and the polling
  goes on for ever) when none does, and it is never rejected.
\<close>

theorem poll_resolves_when_condition_holds:
  "(poll condition interval = Fulfilled Undefined \<longleftrightarrow> (\<exists>n. condition n)) \<and>
   (poll condition interval = Pending \<longleftrightarrow> (\<forall>n. \<not> condition n)) \<and>
   (\<forall>e. poll condition interval \<noteq> Rejected e) \<and>
   (polling_function condition interval 0 = None \<longleftrightarrow> (\<forall>n. \<not> condition n)) \<and>
   (\<forall>steps. polling_function condition interval 0 = Some steps \<longrightarrow>
      hd steps = Evaluated (condition 0) \<and>
      (\<exists>n. condition n \<and> (\<forall>j<n. \<not> condition j) \<and>
         steps = concat (replicate n [Evaluated False, SetTimeout interval]) @
                   [Evaluated True, Resolve]))"
proof -
  have shape: "hd steps = Evaluated (condition 0)"
    if "condition n" "\<forall>j<n. \<not> condition j"
       "steps = concat (replicate n [Evaluated False, SetTimeout interval]) @ [Evaluated True, Resolve]"
    for steps n
    using that by (cases n) auto
  have "\<forall>steps. polling_function condition interval 0 = Some steps \<longrightarrow>
      hd steps = Evaluated (condition 0) \<and>
      (\<exists>n. condition n \<and> (\<forall>j<n. \<not> condition j) \<and>
         steps = concat (replicate n [Evaluated False, SetTimeout interval]) @
                   [Evaluated True, Resolve])"
    using polling_function_Some_iff [of condition interval] shape by blast
  then show ?thesis
    using polling_function_None_iff [of condition interval]
    by (simp add: poll_cases)
qed

theorem poll_resolves_when_condition_holds_witness:
  "polling_function (\<lambda>k. 2 \<le> k) 100 0 =
     Some [Evaluated False, SetTimeout 100, Evaluated False, SetTimeout 100,
           Evaluated True, Resolve] \<and>
   hd [Evaluated False, SetTimeout 100, Evaluated False, SetTimeout 100,
           Evaluated True, Resolve] = Evaluated ((2::nat) \<le> 0) \<and>
   poll (\<lambda>k. 2 \<le> k) 100 = Fulfilled Undefined \<and>
   poll (\<lambda>k. False) 100 = Pending"
proof -
  have run: "polling_function (\<lambda>k. 2 \<le> k) 100 0 =
     Some [Evaluated False, SetTimeout 100, Evaluated False, SetTimeout 100,
           Evaluated True, Resolve]"
    by (simp add: polling_function.simps)
  have "\<exists>n::nat. 2 \<le> n" by (rule exI [of _ 2]) simp
  then show ?thesis
    using run poll_resolves_when_condition_holds [of "\<lambda>k. 2 \<le> k" 100]
      poll_resolves_when_condition_holds [of "\<lambda>k. False" 100]
    by simp
qed

section \<open>Properties of the loading steps\<close>

lemma load_gapi_1_fetched:
  "jq_getScript env ''https://apis.google.com/js/client.js'' = Fulfilled script \<Longrightarrow>
   load_gapi_1 env =
     ([GetScript ''https://apis.google.com/js/client.js''],
      if \<exists>k. truthy (window_gapi env k) \<and> truthy (get (window_gapi env k) ''client'')
      then Fulfilled Undefined else Pending)"
  by (auto simp add: load_gapi_1_def poll_cases gapi_available_def js_and_def)

lemma load_gapi_1_fetch_failed:
  "jq_getScript env ''https://apis.google.com/js/client.js'' = Rejected xhr \<Longrightarrow>
   load_gapi_1 env =
     ([GetScript ''https://apis.google.com/js/client.js''],
      case utils_wrap_ajax_error env xhr of
        Returns v \<Rightarrow> Fulfilled v
      | Throws e \<Rightarrow> Rejected e)"
  by (simp add: load_gapi_1_def split: completion.splits)

text \<open>
  C6 holds where the script is fetched (\<open>load_gapi_1_fetched\<close>: the promise is
  fulfilled exactly when some evaluation finds \<^verbatim>\<open>window.gapi\<close> and \<^verbatim>\<open>gapi.client\<close>).
  Where the fetch fails, \<^verbatim>\<open>utils.wrap_ajax_error\<close> runs as the rejection handler of
  \<^verbatim>\<open>then\<close>, and the value it returns fulfils the promise
  (\<open>load_gapi_1_fetch_failed\<close>). Here the fetch fails and the global never appears: the
  promise of \<^verbatim>\<open>load_gapi_1\<close> is fulfilled, with the wrapped error as its value.
\<close>

theorem load_gapi_1_resolves_without_gapi:
  "load_gapi_1 (scenario\<lparr>
       jq_getScript := \<lambda>url. Rejected (JObj [(''status'', JNum ''0'')]),
       window_gapi := \<lambda>k. Undefined\<rparr>) =
     ([GetScript ''https://apis.google.com/js/client.js''],
      Fulfilled (JError ''XHRError'' ''Unknown error'' Undefined)) \<and>
   gapi_available (scenario\<lparr>
       jq_getScript := \<lambda>url. Rejected (JObj [(''status'', JNum ''0'')]),
       window_gapi := \<lambda>k. Undefined\<rparr>) k = False"
  by (simp add: load_gapi_1_def scenario_def gapi_available_def js_and_def)

text \<open>
  C7, as stated, fails. After a failed fetch \<^verbatim>\<open>load_gapi_1\<close> is fulfilled with the
  wrapped error and \<^verbatim>\<open>load_gapi_2\<close> runs with \<^verbatim>\<open>gapi\<close> unbound: it loads nothing, no
  call reaches the library, and its promise is rejected.
\<close>

theorem load_gapi_2_unbound_counterexample:
  "load_gapi_2 (scenario\<lparr>gapi_bound := False\<rparr>)
     (JError ''XHRError'' ''Unknown error'' Undefined) =
   ([], Rejected (JError ''ReferenceError'' ''gapi is not defined'' Undefined))"
  by (simp add: load_gapi_2_def scenario_def reject_with_def gapi_is_not_defined_def)

text \<open>
  C7, amended. Where the client library is loaded (\<^verbatim>\<open>gapi\<close> is bound),
  \<^verbatim>\<open>load_gapi_2\<close> calls \<^verbatim>\<open>gapi.load\<close> with the feature modules
  \<^verbatim>\<open>auth:client,drive-realtime,drive-share\<close> and, once that has called back,
  \<^verbatim>\<open>gapi.client.load\<close> with \<^verbatim>\<open>drive\<close> and \<^verbatim>\<open>v2\<close>, and its promise is pending until
  the callback of the latter fires. In every state the promise is fulfilled only when
  that callback has fired, with the argument of that call.
\<close>

theorem load_gapi_2_loads:
  "(gapi_bound env \<longrightarrow>
      fst (load_gapi_2 env d) =
        GapiLoad ''auth:client,drive-realtime,drive-share'' #
          (if gapi_load env ''auth:client,drive-realtime,drive-share''
           then [GapiClientLoad ''drive'' ''v2''] else []) \<and>
      (snd (load_gapi_2 env d) = Pending \<longleftrightarrow>
         \<not> gapi_load env ''auth:client,drive-realtime,drive-share'' \<or>
         gapi_client_load env ''drive'' ''v2'' = None)) \<and>
   (snd (load_gapi_2 env d) = Fulfilled v \<longleftrightarrow>
      gapi_bound env \<and>
      gapi_load env ''auth:client,drive-realtime,drive-share'' \<and>
      gapi_client_load env ''drive'' ''v2'' = Some v)"
  by (simp add: load_gapi_2_def resolve_with_def reject_with_def split: option.splits)

theorem load_gapi_2_loads_witness:
  "gapi_bound scenario \<and>
   fst (load_gapi_2 scenario Undefined) =
     [GapiLoad ''auth:client,drive-realtime,drive-share'', GapiClientLoad ''drive'' ''v2''] \<and>
   snd (load_gapi_2 scenario Undefined) = Fulfilled Undefined \<and>
   gapi_bound (scenario\<lparr>gapi_client_load := \<lambda>name version. None\<rparr>) \<and>
   snd (load_gapi_2 (scenario\<lparr>gapi_client_load := \<lambda>name version. None\<rparr>) Undefined) = Pending"
  using load_gapi_2_loads [of scenario Undefined Undefined]
    load_gapi_2_loads [of "scenario\<lparr>gapi_client_load := \<lambda>name version. None\<rparr>" Undefined Undefined]
  by (simp add: scenario_def)

text \<open>
  \<^verbatim>\<open>authorize\<close> runs in the chain only on the fulfilment of \<^verbatim>\<open>load_gapi_2\<close>, and
  so only where \<^verbatim>\<open>gapi\<close> is bound.
\<close>

lemma load_gapi_2_fulfilled_bound:
  "load_gapi_2 env d = (t, Fulfilled v) \<Longrightarrow> gapi_bound env"
  by (cases "gapi_bound env") (simp_all add: load_gapi_2_def reject_with_def)

section \<open>Properties of the authorization\<close>

lemma authorize_popup:
  "truthy flag \<Longrightarrow>
   authorize env flag =
     (case dialog_modal env options of
        ClickOk \<Rightarrow>
          ([DialogModal options, GapiAuthAuthorize \<lparr>
              client_id = ''911569945122-tlvi6ucbj137ifhitpqpdikf3qo1mh9d.apps.googleusercontent.com'',
              scope = [FILES_OAUTH_SCOPE, METADATA_OAUTH_SCOPE],
              immediate = False\<rparr>],
           case gapi_auth_authorize env \<lparr>
              client_id = ''911569945122-tlvi6ucbj137ifhitpqpdikf3qo1mh9d.apps.googleusercontent.com'',
              scope = [FILES_OAUTH_SCOPE, METADATA_OAUTH_SCOPE],
              immediate = False\<rparr> of
             None \<Rightarrow> Pending
           | Some result \<Rightarrow> wrap_result result)
      | ClickCancel ev \<Rightarrow> ([DialogModal options], Rejected ev)
      | NoClick \<Rightarrow> ([DialogModal options], Pending))"
  by (subst authorize.simps)
    (simp add: authorize_internal_def resolve_with_def reject_with_def Let_def
      split: user_action.splits option.splits)

lemma authorize_silent:
  "\<not> truthy flag \<Longrightarrow>
   authorize env flag =
     (case gapi_auth_authorize env \<lparr>
              client_id = ''911569945122-tlvi6ucbj137ifhitpqpdikf3qo1mh9d.apps.googleusercontent.com'',
              scope = [FILES_OAUTH_SCOPE, METADATA_OAUTH_SCOPE],
              immediate = True\<rparr> of
        None \<Rightarrow> ([GapiAuthAuthorize \<lparr>
              client_id = ''911569945122-tlvi6ucbj137ifhitpqpdikf3qo1mh9d.apps.googleusercontent.com'',
              scope = [FILES_OAUTH_SCOPE, METADATA_OAUTH_SCOPE],
              immediate = True\<rparr>], Pending)
      | Some result \<Rightarrow>
          (if \<not> truthy result \<or> truthy (get result ''error'') then
             (GapiAuthAuthorize \<lparr>
                client_id = ''911569945122-tlvi6ucbj137ifhitpqpdikf3qo1mh9d.apps.googleusercontent.com'',
                scope = [FILES_OAUTH_SCOPE, METADATA_OAUTH_SCOPE],
                immediate = True\<rparr> # fst (authorize env (JBool True)),
              snd (authorize env (JBool True)))
           else
             ([GapiAuthAuthorize \<lparr>
                client_id = ''911569945122-tlvi6ucbj137ifhitpqpdikf3qo1mh9d.apps.googleusercontent.com'',
                scope = [FILES_OAUTH_SCOPE, METADATA_OAUTH_SCOPE],
                immediate = True\<rparr>], Fulfilled result)))"
  by (subst authorize.simps)
    (simp add: authorize_internal_def catch_def resolve_with_def wrap_result_def
      Promise_reject_def Promise_resolve_def Let_def split_beta split: option.splits)

text \<open>
  C2. Called without the popup flag, \<^verbatim>\<open>authorize\<close> first makes a silent attempt
  (\<^verbatim>\<open>immediate: true\<close>). When that attempt fails (its result is falsy or carries an
  error), the popup flow runs once: the dialog is shown and, after a click on \<^verbatim>\<open>ok\<close>,
  one interactive attempt is made. Nothing follows: the outcome of the popup flow is the
  outcome of \<^verbatim>\<open>authorize\<close>, also when it is a rejection. When the silent attempt
  succeeds or never answers, no dialog is shown and no second attempt is made.
\<close>

theorem authorize_silent_then_popup_once:
  "\<not> truthy flag \<Longrightarrow>
   (let silent = \<lparr>
      client_id = ''911569945122-tlvi6ucbj137ifhitpqpdikf3qo1mh9d.apps.googleusercontent.com'',
      scope = [FILES_OAUTH_SCOPE, METADATA_OAUTH_SCOPE],
      immediate = True\<rparr>;
      popup = silent\<lparr>immediate := False\<rparr>;
      failed = (case gapi_auth_authorize env silent of
         None \<Rightarrow> False
       | Some result \<Rightarrow> \<not> truthy result \<or> truthy (get result ''error''))
    in fst (authorize env flag) =
         GapiAuthAuthorize silent #
           (if failed then
              DialogModal options #
                (if dialog_modal env options = ClickOk then [GapiAuthAuthorize popup] else [])
            else []) \<and>
       snd (authorize env flag) =
         (case gapi_auth_authorize env silent of
            None \<Rightarrow> Pending
          | Some result \<Rightarrow>
              if failed then
                (case dialog_modal env options of
                   ClickOk \<Rightarrow>
                     (case gapi_auth_authorize env popup of
                        None \<Rightarrow> Pending
                      | Some result' \<Rightarrow> wrap_result result')
                 | ClickCancel ev \<Rightarrow> Rejected ev
                 | NoClick \<Rightarrow> Pending)
              else Fulfilled result))"
  by (simp add: authorize_silent authorize_popup Let_def
      split: option.splits user_action.splits)

theorem authorize_silent_then_popup_once_witness:
  "\<not> truthy Undefined \<and>
   authorize scenario Undefined =
     ([GapiAuthAuthorize \<lparr>
         client_id = ''911569945122-tlvi6ucbj137ifhitpqpdikf3qo1mh9d.apps.googleusercontent.com'',
         scope = [FILES_OAUTH_SCOPE, METADATA_OAUTH_SCOPE],
         immediate = True\<rparr>,
       DialogModal options,
       GapiAuthAuthorize \<lparr>
         client_id = ''911569945122-tlvi6ucbj137ifhitpqpdikf3qo1mh9d.apps.googleusercontent.com'',
         scope = [FILES_OAUTH_SCOPE, METADATA_OAUTH_SCOPE],
         immediate = False\<rparr>],
      Fulfilled (JObj [(''access_token'', JStr ''ya29'')]))"
  using authorize_silent_then_popup_once [of Undefined scenario]
  by (simp add: scenario_def Let_def wrap_result_def Promise_resolve_def prod_eq_iff)

text \<open>
  C9. On the popup path the dialog comes first. The authorization call is made after a
  click on \<^verbatim>\<open>ok\<close> and in no other case; after a click on \<^verbatim>\<open>cancel\<close> the promise is
  rejected and no authorization attempt has been made.
\<close>

theorem authorize_popup_waits_for_ok:
  "truthy flag \<Longrightarrow>
   (let popup = \<lparr>
      client_id = ''911569945122-tlvi6ucbj137ifhitpqpdikf3qo1mh9d.apps.googleusercontent.com'',
      scope = [FILES_OAUTH_SCOPE, METADATA_OAUTH_SCOPE],
      immediate = False\<rparr>
    in (dialog_modal env options = ClickOk \<longrightarrow>
          authorize env flag =
            ([DialogModal options, GapiAuthAuthorize popup],
             case gapi_auth_authorize env popup of
               None \<Rightarrow> Pending
             | Some result \<Rightarrow> wrap_result result)) \<and>
       (dialog_modal env options \<noteq> ClickOk \<longrightarrow>
          fst (authorize env flag) = [DialogModal options]) \<and>
       (\<forall>ev. dialog_modal env options = ClickCancel ev \<longrightarrow>
          authorize env flag = ([DialogModal options], Rejected ev)))"
  by (simp add: authorize_popup Let_def split: user_action.splits)

theorem authorize_popup_waits_for_ok_witness:
  "truthy (JBool True) \<and>
   dialog_modal (scenario\<lparr>dialog_modal := \<lambda>options. ClickCancel (JStr ''click'')\<rparr>) options =
     ClickCancel (JStr ''click'') \<and>
   authorize (scenario\<lparr>dialog_modal := \<lambda>options. ClickCancel (JStr ''click'')\<rparr>) (JBool True) =
     ([DialogModal options], Rejected (JStr ''click'')) \<and>
   dialog_modal scenario options = ClickOk \<and>
   authorize scenario (JBool True) =
     ([DialogModal options, GapiAuthAuthorize \<lparr>
         client_id = ''911569945122-tlvi6ucbj137ifhitpqpdikf3qo1mh9d.apps.googleusercontent.com'',
         scope = [FILES_OAUTH_SCOPE, METADATA_OAUTH_SCOPE],
         immediate = False\<rparr>],
      Fulfilled (JObj [(''access_token'', JStr ''ya29'')]))"
  using authorize_popup_waits_for_ok
      [of "JBool True" "scenario\<lparr>dialog_modal := \<lambda>options. ClickCancel (JStr ''click'')\<rparr>"]
    authorize_popup_waits_for_ok [of "JBool True" scenario]
  by (simp add: scenario_def Let_def wrap_result_def Promise_resolve_def)

text \<open>
  C10. The attempt that \<^verbatim>\<open>authorize_internal\<close> makes requests the fixed client id and
  the two scopes \<^verbatim>\<open>drive.file\<close> and \<^verbatim>\<open>drive.readonly.metadata\<close>, with
  \<^verbatim>\<open>immediate\<close> true exactly when the popup flag is not set. Every attempt of
  \<^verbatim>\<open>authorize\<close> is such an attempt: under its own flag, or under the flag \<^verbatim>\<open>true\<close> of
  the retry when its own flag is not set. So every attempt has that client id and those
  scopes, and none is immediate when the flag is set.
\<close>

theorem authorize_requests:
  "fst (authorize_internal env flag) =
     [GapiAuthAuthorize \<lparr>
        client_id = ''911569945122-tlvi6ucbj137ifhitpqpdikf3qo1mh9d.apps.googleusercontent.com'',
        scope = [''https://www.googleapis.com/auth/drive.file'',
                 ''https://www.googleapis.com/auth/drive.readonly.metadata''],
        immediate = (\<not> truthy flag)\<rparr>] \<and>
   (\<forall>e \<in> set (fst (authorize env flag)).
      e = DialogModal options \<or>
      e \<in> set (fst (authorize_internal env flag)) \<or>
      \<not> truthy flag \<and> e \<in> set (fst (authorize_internal env (JBool True)))) \<and>
   (\<forall>params. GapiAuthAuthorize params \<in> set (fst (authorize env flag)) \<longrightarrow>
      client_id params =
        ''911569945122-tlvi6ucbj137ifhitpqpdikf3qo1mh9d.apps.googleusercontent.com'' \<and>
      scope params = [''https://www.googleapis.com/auth/drive.file'',
                      ''https://www.googleapis.com/auth/drive.readonly.metadata''] \<and>
      (immediate params \<longrightarrow> \<not> truthy flag))"
proof (cases "truthy flag")
  case True
  then show ?thesis
    by (simp add: authorize_popup authorize_internal_def FILES_OAUTH_SCOPE_def
        METADATA_OAUTH_SCOPE_def Let_def split: user_action.splits)
next
  case False
  then show ?thesis
    by (simp add: authorize_silent authorize_popup authorize_internal_def FILES_OAUTH_SCOPE_def
        METADATA_OAUTH_SCOPE_def Let_def split: user_action.splits option.splits)
qed

theorem authorize_requests_witness:
  "GapiAuthAuthorize \<lparr>
      client_id = ''911569945122-tlvi6ucbj137ifhitpqpdikf3qo1mh9d.apps.googleusercontent.com'',
      scope = [''https://www.googleapis.com/auth/drive.file'',
               ''https://www.googleapis.com/auth/drive.readonly.metadata''],
      immediate = True\<rparr> \<in> set (fst (authorize scenario Undefined)) \<and>
   GapiAuthAuthorize \<lparr>
      client_id = ''911569945122-tlvi6ucbj137ifhitpqpdikf3qo1mh9d.apps.googleusercontent.com'',
      scope = [''https://www.googleapis.com/auth/drive.file'',
               ''https://www.googleapis.com/auth/drive.readonly.metadata''],
      immediate = False\<rparr> \<in> set (fst (authorize scenario Undefined)) \<and>
   \<not> truthy Undefined"
  using authorize_requests [of scenario Undefined]
  by (simp add: authorize_silent authorize_popup scenario_def FILES_OAUTH_SCOPE_def
      METADATA_OAUTH_SCOPE_def)

section \<open>Properties of the startup chain\<close>

text \<open>
  \<^verbatim>\<open>gapi_ready\<close> is one value of the module, the composition of the three steps in
  the order \<^verbatim>\<open>load_gapi_1\<close>, \<^verbatim>\<open>load_gapi_2\<close>, \<^verbatim>\<open>authorize\<close>: \<^verbatim>\<open>load_gapi_2\<close> runs
  when the promise of \<^verbatim>\<open>load_gapi_1\<close> has been fulfilled (and receives its value),
  \<^verbatim>\<open>authorize\<close> runs when the promise of \<^verbatim>\<open>load_gapi_2\<close> has been fulfilled (and
  receives its value as the popup flag), and a step that stays pending or is rejected
  ends the chain with that state.
\<close>

lemma gapi_ready_steps:
  "gapi_ready env =
     (case load_gapi_1 env of
        (t1, Fulfilled v1) \<Rightarrow>
          (case load_gapi_2 env v1 of
             (t2, Fulfilled v2) \<Rightarrow>
               (t1 @ t2 @ fst (authorize env v2), snd (authorize env v2))
           | (t2, Pending) \<Rightarrow> (t1 @ t2, Pending)
           | (t2, Rejected e2) \<Rightarrow> (t1 @ t2, Rejected e2))
      | (t1, Pending) \<Rightarrow> (t1, Pending)
      | (t1, Rejected e1) \<Rightarrow> (t1, Rejected e1))"
proof (cases "load_gapi_1 env")
  case (Pair t1 p1)
  show ?thesis
  proof (cases p1)
    case (Fulfilled v1)
    obtain t2 p2 where step2: "load_gapi_2 env v1 = (t2, p2)" by (cases "load_gapi_2 env v1")
    show ?thesis using Pair Fulfilled step2
      by (cases p2) (simp_all add: gapi_ready_def then1_def split_beta)
  qed (simp_all add: gapi_ready_def then1_def Pair)
qed

lemma gapi_available_scenario: "gapi_available scenario k = (2 \<le> k)"
  by (auto simp add: gapi_available_def scenario_def js_and_def)

lemma load_gapi_1_scenario:
  "load_gapi_1 scenario = ([GetScript ''https://apis.google.com/js/client.js''], Fulfilled Undefined)"
proof -
  have "\<exists>n. gapi_available scenario n"
    by (rule exI [of _ 2]) (simp add: gapi_available_scenario)
  then have "poll (gapi_available scenario) 100 = Fulfilled Undefined"
    by (simp add: poll_cases)
  then show ?thesis
    by (simp add: load_gapi_1_def scenario_def)
qed

lemma gapi_ready_scenario:
  "gapi_ready scenario =
     ([GetScript ''https://apis.google.com/js/client.js'',
       GapiLoad ''auth:client,drive-realtime,drive-share'',
       GapiClientLoad ''drive'' ''v2'',
       GapiAuthAuthorize \<lparr>
         client_id = ''911569945122-tlvi6ucbj137ifhitpqpdikf3qo1mh9d.apps.googleusercontent.com'',
         scope = [FILES_OAUTH_SCOPE, METADATA_OAUTH_SCOPE],
         immediate = True\<rparr>,
       DialogModal options,
       GapiAuthAuthorize \<lparr>
         client_id = ''911569945122-tlvi6ucbj137ifhitpqpdikf3qo1mh9d.apps.googleusercontent.com'',
         scope = [FILES_OAUTH_SCOPE, METADATA_OAUTH_SCOPE],
         immediate = False\<rparr>],
      Fulfilled (JObj [(''access_token'', JStr ''ya29'')]))"
proof -
  have step2: "load_gapi_2 scenario Undefined =
      ([GapiLoad ''auth:client,drive-realtime,drive-share'', GapiClientLoad ''drive'' ''v2''],
       Fulfilled Undefined)"
    by (simp add: load_gapi_2_def scenario_def resolve_with_def)
  have step3: "authorize scenario Undefined =
     ([GapiAuthAuthorize \<lparr>
         client_id = ''911569945122-tlvi6ucbj137ifhitpqpdikf3qo1mh9d.apps.googleusercontent.com'',
         scope = [FILES_OAUTH_SCOPE, METADATA_OAUTH_SCOPE],
         immediate = True\<rparr>,
       DialogModal options,
       GapiAuthAuthorize \<lparr>
         client_id = ''911569945122-tlvi6ucbj137ifhitpqpdikf3qo1mh9d.apps.googleusercontent.com'',
         scope = [FILES_OAUTH_SCOPE, METADATA_OAUTH_SCOPE],
         immediate = False\<rparr>],
      Fulfilled (JObj [(''access_token'', JStr ''ya29'')]))"
    by (simp add: authorize_silent authorize_popup scenario_def wrap_result_def
        Promise_resolve_def)
  show ?thesis
    by (simp add: gapi_ready_steps load_gapi_1_scenario step2 step3)
qed

text \<open>
  C4 fails where the fetch fails. The first step has not succeeded: the script was not
  fetched, no poll ran and \<^verbatim>\<open>gapi\<close> is unbound. Its promise is fulfilled all the same,
  with the wrapped error that the rejection handler returns, so \<^verbatim>\<open>load_gapi_2\<close> runs,
  with that value as its argument; its executor throws at \<^verbatim>\<open>gapi.load\<close>, and
  \<^verbatim>\<open>gapi_ready\<close> is rejected with the ReferenceError of the second step.
\<close>

theorem gapi_ready_second_step_after_failed_fetch:
  "load_gapi_1 (scenario\<lparr>
       jq_getScript := \<lambda>url. Rejected (JObj [(''status'', JNum ''0'')]),
       window_gapi := \<lambda>k. Undefined,
       gapi_bound := False\<rparr>) =
     ([GetScript ''https://apis.google.com/js/client.js''],
      Fulfilled (JError ''XHRError'' ''Unknown error'' Undefined)) \<and>
   load_gapi_2 (scenario\<lparr>
       jq_getScript := \<lambda>url. Rejected (JObj [(''status'', JNum ''0'')]),
       window_gapi := \<lambda>k. Undefined,
       gapi_bound := False\<rparr>) (JError ''XHRError'' ''Unknown error'' Undefined) =
     ([], Rejected (JError ''ReferenceError'' ''gapi is not defined'' Undefined)) \<and>
   gapi_ready (scenario\<lparr>
       jq_getScript := \<lambda>url. Rejected (JObj [(''status'', JNum ''0'')]),
       window_gapi := \<lambda>k. Undefined,
       gapi_bound := False\<rparr>) =
     ([GetScript ''https://apis.google.com/js/client.js''],
      Rejected (JError ''ReferenceError'' ''gapi is not defined'' Undefined))"
  by (simp add: gapi_ready_def then1_def load_gapi_1_def load_gapi_2_def scenario_def
      reject_with_def gapi_is_not_defined_def)

end
